theory Spec2Isabelle
  imports Main
begin

section \<open>Python values the script handles\<close>

text \<open>
  The exceptions that can travel through \<open>volcano.py\<close>. Each carries the text that
  \<open>str(e)\<close> is built from. \<open>HTTPError\<close>, \<open>ChunkedEncodingError\<close>,
  \<open>RequestsJSONDecodeError\<close> and \<open>RequestException\<close> (any other member of the
  hierarchy) are the classes of \<open>requests.exceptions\<close>; \<open>ValueError\<close> is the plain
  decoding error that \<open>response.json()\<close> raises in releases of requests where the decoding
  error is no \<open>RequestException\<close>; \<open>LibraryError\<close> is whatever else keyring or arcgis raise.
\<close>

datatype exn =
    KeyError string
  | NameError string
  | Exception string
  | HTTPError nat string
  | ChunkedEncodingError string
  | RequestsJSONDecodeError string
  | RequestException string
  | ValueError string
  | LibraryError string

fun is_ChunkedEncodingError :: "exn \<Rightarrow> bool" where
  "is_ChunkedEncodingError (ChunkedEncodingError m) = True"
| "is_ChunkedEncodingError e = False"

fun is_RequestException :: "exn \<Rightarrow> bool" where
  "is_RequestException (HTTPError s m) = True"
| "is_RequestException (ChunkedEncodingError m) = True"
| "is_RequestException (RequestsJSONDecodeError m) = True"
| "is_RequestException (RequestException m) = True"
| "is_RequestException e = False"

text \<open>\<open>str(e)\<close>: a \<open>KeyError\<close> shows the repr of the key, a \<open>NameError\<close> the
  interpreter's message, every other exception its message.\<close>

fun str_exn :: "exn \<Rightarrow> string" where
  "str_exn (KeyError k) = [CHR 0x27] @ k @ [CHR 0x27]"
| "str_exn (NameError n) = ''name '' @ [CHR 0x27] @ n @ [CHR 0x27] @ '' is not defined''"
| "str_exn (Exception m) = m"
| "str_exn (HTTPError s m) = m"
| "str_exn (ChunkedEncodingError m) = m"
| "str_exn (RequestsJSONDecodeError m) = m"
| "str_exn (RequestException m) = m"
| "str_exn (ValueError m) = m"
| "str_exn (LibraryError m) = m"

subsection \<open>Decimal text of integers\<close>

definition digit_char :: "nat \<Rightarrow> char" where
  "digit_char n = ''0123456789'' ! n"

fun str_nat :: "nat \<Rightarrow> string" where
  "str_nat n = (if n < 10 then [digit_char n] else str_nat (n div 10) @ [digit_char (n mod 10)])"

declare str_nat.simps [simp del]

definition str_int :: "int \<Rightarrow> string" where
  "str_int i = (if i < 0 then ''-'' @ str_nat (nat (- i)) else str_nat (nat i))"

subsection \<open>JSON documents and \<open>json.dump\<close>\<close>

text \<open>
  What \<open>response.json()\<close> returns: \<open>None\<close>, a bool, an int, a float, a str, a list or a
  dict with string keys (in insertion order). Floating point is not modelled: a float is
  carried as the text the encoder writes for it (\<open>float.__repr__\<close>, or \<open>NaN\<close>,
  \<open>Infinity\<close>, \<open>-Infinity\<close>), which has a first character. Characters are code points
  below 256.
\<close>

datatype jvalue =
    JNull
  | JBool bool
  | JInt int
  | JFloat char string
  | JStr string
  | JList "jvalue list"
  | JDict "(string \<times> jvalue) list"

definition hex_digit :: "nat \<Rightarrow> char" where
  "hex_digit n = ''0123456789abcdef'' ! n"

text \<open>\<open>json.encoder.py_encode_basestring_ascii\<close> (\<open>ensure_ascii\<close> is the default of
  \<open>json.dump\<close>): the quote, the backslash and everything outside \<open>' '..'~'\<close> is escaped.\<close>

definition escape_char :: "char \<Rightarrow> string" where
  "escape_char c =
     (if c = CHR 0x22 then [CHR 0x5C, CHR 0x22]
      else if c = CHR 0x5C then [CHR 0x5C, CHR 0x5C]
      else if c = CHR 0x0A then [CHR 0x5C, CHR ''n'']
      else if c = CHR 0x0D then [CHR 0x5C, CHR ''r'']
      else if c = CHR 0x09 then [CHR 0x5C, CHR ''t'']
      else if c = CHR 0x08 then [CHR 0x5C, CHR ''b'']
      else if c = CHR 0x0C then [CHR 0x5C, CHR ''f'']
      else if 0x20 \<le> (of_char c :: nat) \<and> (of_char c :: nat) \<le> 0x7E then [c]
      else [CHR 0x5C, CHR ''u'', CHR ''0'', CHR ''0'',
            hex_digit ((of_char c :: nat) div 16), hex_digit ((of_char c :: nat) mod 16)])"

definition encode_basestring_ascii :: "string \<Rightarrow> string" where
  "encode_basestring_ascii s = [CHR 0x22] @ concat (map escape_char s) @ [CHR 0x22]"

fun str_join :: "string \<Rightarrow> string list \<Rightarrow> string" where
  "str_join sep [] = []"
| "str_join sep [x] = x"
| "str_join sep (x # y # ys) = x @ sep @ str_join sep (y # ys)"

text \<open>The text \<open>json.dump(data, file)\<close> writes, with the default separators
  \<open>', '\<close> and \<open>': '\<close>.\<close>

fun json_dumps :: "jvalue \<Rightarrow> string" where
  "json_dumps JNull = ''null''"
| "json_dumps (JBool b) = (if b then ''true'' else ''false'')"
| "json_dumps (JInt i) = str_int i"
| "json_dumps (JFloat c cs) = c # cs"
| "json_dumps (JStr s) = encode_basestring_ascii s"
| "json_dumps (JList xs) = ''['' @ str_join '', '' (map json_dumps xs) @ '']''"
| "json_dumps (JDict kvs) =
     ''{'' @ str_join '', ''
        (map (\<lambda>kv. encode_basestring_ascii (fst kv) @ '': '' @ json_dumps (snd kv)) kvs) @ ''}''"

subsection \<open>\<open>str(timedelta)\<close>\<close>

text \<open>A \<open>datetime\<close> is its number of microseconds; \<open>end - start\<close> is a \<open>timedelta\<close>,
  normalised by Python to days (of either sign), seconds and microseconds.\<close>

definition pad2 :: "nat \<Rightarrow> string" where
  "pad2 n = (if n < 10 then ''0'' @ str_nat n else str_nat n)"

definition pad6 :: "nat \<Rightarrow> string" where
  "pad6 n = replicate (6 - length (str_nat n)) (CHR ''0'') @ str_nat n"

definition str_timedelta :: "int \<Rightarrow> string" where
  "str_timedelta us =
     (let days = us div 86400000000;
          rest = nat (us mod 86400000000);
          seconds = rest div 1000000;
          microseconds = rest mod 1000000;
          mm = seconds div 60;
          ss = seconds mod 60;
          hh = mm div 60;
          s = str_nat hh @ '':'' @ pad2 (mm mod 60) @ '':'' @ pad2 ss;
          s1 = (if days \<noteq> 0
                then str_int days @ '' day'' @ (if \<bar>days\<bar> \<noteq> 1 then ''s'' else []) @ '', '' @ s
                else s)
      in if microseconds \<noteq> 0 then s1 @ ''.'' @ pad6 microseconds else s1)"

section \<open>The world outside the script\<close>

text \<open>An HTTP response as \<open>requests\<close> hands it over; \<open>json\<close> is the outcome of
  \<open>response.json()\<close>: the parsed document, or the decoding error of a body that is not
  JSON.\<close>

record response =
  status_code :: nat
  reason :: string
  resp_url :: string
  json :: "exn + jvalue"

text \<open>
  \<open>Response.raise_for_status\<close> of the requests library, which the script calls on the
  response: the library builds a message \<open>"<status> Client Error: <reason> for url: <url>"\<close>
  for \<open>400 <= status_code < 500\<close>, the same with \<open>Server Error\<close> for
  \<open>500 <= status_code < 600\<close>, and raises \<open>HTTPError\<close> when there is a message. Any
  other status (1xx, 3xx that was not followed as a redirect, 2xx) raises nothing.
\<close>

definition raise_for_status :: "response \<Rightarrow> exn + unit" where
  "raise_for_status r =
     (if 400 \<le> status_code r \<and> status_code r < 500
      then Inl (HTTPError (status_code r)
             (str_nat (status_code r) @ '' Client Error: '' @ reason r @ '' for url: '' @ resp_url r))
      else if 500 \<le> status_code r \<and> status_code r < 600
      then Inl (HTTPError (status_code r)
             (str_nat (status_code r) @ '' Server Error: '' @ reason r @ '' for url: '' @ resp_url r))
      else Inr ())"

datatype gis = Gis nat
datatype item = PortalItem nat
datatype collection = FeatureLayerCollection nat

type_synonym config = "string \<rightharpoonup> (string \<rightharpoonup> string)"

text \<open>
  Everything a run reads from outside: the directory above the script, \<open>config.ini\<close> as
  \<open>config.read\<close> loaded it, the two readings of the clock, and the answers of the
  libraries (requests, keyring, arcgis), each either a value or the exception raised.
\<close>

record env =
  working_dir :: string
  config :: config
  start_time :: int
  end_time :: int
  requests_get :: "string \<Rightarrow> exn + response"
  get_password :: "string \<Rightarrow> string \<Rightarrow> exn + string option"
  GIS :: "string \<Rightarrow> string \<Rightarrow> string option \<Rightarrow> exn + gis"
  content_get :: "gis \<Rightarrow> string \<Rightarrow> exn + item option"
  fromitem :: "item option \<Rightarrow> exn + collection"
  manager_overwrite :: "collection \<Rightarrow> string \<Rightarrow> exn + unit"

datatype level = INFO | ERROR

text \<open>What a run does that can be observed, in order: lines on stdout, records appended
  to \<open>volcano.log\<close> (the last field is the exception whose traceback
  \<open>logging.exception\<close> appends), files written, and the calls made to the source API,
  the secret store and the portal.\<close>

datatype event =
    Print string
  | Log level string "exn option"
  | FileWrite string string
  | HttpGet string
  | KeyringGet string string
  | GISConnect string string "string option"
  | ContentGet gis string
  | FromItem "item option"
  | Overwrite collection string

record world =
  events :: "event list"
  files :: "string \<rightharpoonup> string"

text \<open>How a statement ends: it returns, raises an \<open>Exception\<close>, or \<open>sys.exit(n)\<close> was
  called (\<open>SystemExit\<close>, which \<open>except Exception\<close> does not catch).\<close>

datatype 'a outcome = Return 'a | Raise exn | SysExit nat

type_synonym 'a action = "world \<Rightarrow> 'a outcome \<times> world"

definition ret :: "'a \<Rightarrow> 'a action" where
  "ret x w = (Return x, w)"

definition and_then :: "'a action \<Rightarrow> ('a \<Rightarrow> 'b action) \<Rightarrow> 'b action" where
  "and_then m f w =
     (case m w of
        (Return x, w') \<Rightarrow> f x w'
      | (Raise e, w') \<Rightarrow> (Raise e, w')
      | (SysExit n, w') \<Rightarrow> (SysExit n, w'))"

text \<open>\<open>try: m except ... as e: h e\<close>, for a handler \<open>h\<close> that re-raises what its
  clause does not name.\<close>

definition try_except :: "'a action \<Rightarrow> (exn \<Rightarrow> 'a action) \<Rightarrow> 'a action" where
  "try_except m h w =
     (case m w of
        (Return x, w') \<Rightarrow> (Return x, w')
      | (Raise e, w') \<Rightarrow> h e w'
      | (SysExit n, w') \<Rightarrow> (SysExit n, w'))"

definition raise :: "exn \<Rightarrow> 'a action" where
  "raise e w = (Raise e, w)"

definition sys_exit :: "nat \<Rightarrow> 'a action" where
  "sys_exit n w = (SysExit n, w)"

definition emit :: "event \<Rightarrow> unit action" where
  "emit ev w = (Return (), w\<lparr>events := events w @ [ev]\<rparr>)"

definition lift :: "exn + 'a \<Rightarrow> 'a action" where
  "lift r w = (case r of Inl e \<Rightarrow> (Raise e, w) | Inr x \<Rightarrow> (Return x, w))"

definition write_file :: "string \<Rightarrow> string \<Rightarrow> unit action" where
  "write_file path text w =
     (Return (), w\<lparr>events := events w @ [FileWrite path text], files := (files w)(path \<mapsto> text)\<rparr>)"

text \<open>\<open>config[section][key]\<close> of a \<open>ConfigParser\<close>: a \<open>KeyError\<close> for a missing section
  or a missing key.\<close>

definition config_get :: "config \<Rightarrow> string \<Rightarrow> string \<Rightarrow> exn + string" where
  "config_get cfg section key =
     (case cfg section of
        None \<Rightarrow> Inl (KeyError section)
      | Some options \<Rightarrow>
          (case options key of None \<Rightarrow> Inl (KeyError key) | Some v \<Rightarrow> Inr v))"

section \<open>The script\<close>

definition sign_in_to_gis :: "env \<Rightarrow> string \<Rightarrow> string \<Rightarrow> string option \<Rightarrow> gis action" where
  "sign_in_to_gis env portal_url username password =
     and_then (emit (Print (''Signing into '' @ portal_url @ ''...''))) (\<lambda>_.
     and_then (emit (GISConnect portal_url username password)) (\<lambda>_.
     and_then (lift (GIS env portal_url username password)) (\<lambda>gis.
     and_then (emit (Print ''Done.'')) (\<lambda>_.
     ret gis))))"

text \<open>The declared result is \<open>Optional\<close>: the value returned is the one
  \<open>gis.content.get\<close> gave, after the \<open>None\<close> test.\<close>

definition get_portal_item :: "env \<Rightarrow> gis \<Rightarrow> string \<Rightarrow> item option action" where
  "get_portal_item env gis item_id =
     try_except
       (and_then (emit (ContentGet gis item_id)) (\<lambda>_.
        and_then (lift (content_get env gis item_id)) (\<lambda>portal_item.
        if portal_item = None
        then raise (Exception (''Portal item '' @ item_id @ '' not found''))
        else ret portal_item)))
       (\<lambda>e.
        and_then (emit (Log ERROR (''Failed to retrieve portal item: '' @ str_exn e) None)) (\<lambda>_.
        raise e))"

definition geojson_path :: "env \<Rightarrow> string" where
  "geojson_path env = working_dir env @ ''/01 Projects and Data/Data/Volcano.geojson''"

text \<open>The \<open>try\<close> block of \<open>ingest\<close>: the request, the status check, the decoding.\<close>

definition ingest_try :: "env \<Rightarrow> string \<Rightarrow> jvalue action" where
  "ingest_try env url =
     and_then (emit (HttpGet url)) (\<lambda>_.
     and_then (lift (requests_get env url)) (\<lambda>response.
     and_then (lift (raise_for_status response)) (\<lambda>_.
     lift (json response))))"

text \<open>\<open>open(geojson_path, 'w')\<close> and \<open>json.dump\<close> are taken to succeed: the file then
  holds the serialised document, whatever it held before.\<close>

definition ingest :: "env \<Rightarrow> string action" where
  "ingest env =
     and_then (lift (config_get (config env) ''USGS'' ''url'')) (\<lambda>url.
     and_then
       (try_except (ingest_try env url)
          (\<lambda>ex.
           if is_ChunkedEncodingError ex \<or> is_RequestException ex
           then and_then (emit (Log ERROR (''Failed to download data: '' @ str_exn ex) None)) (\<lambda>_.
                sys_exit 1)
           else raise ex)) (\<lambda>data.
     and_then (emit (Print ''Writing geojson...'')) (\<lambda>_.
     and_then (write_file (geojson_path env) (json_dumps data)) (\<lambda>_.
     and_then (emit (Print ''Done.'')) (\<lambda>_.
     ret (geojson_path env))))))"

definition replace_flayer :: "env \<Rightarrow> item option \<Rightarrow> string \<Rightarrow> unit action" where
  "replace_flayer env feature_layer_to_update geojson_to_upload =
     and_then (emit (Print ''Overwriting feature layer...'')) (\<lambda>_.
     and_then (emit (FromItem feature_layer_to_update)) (\<lambda>_.
     and_then (lift (fromitem env feature_layer_to_update)) (\<lambda>collection.
     and_then (emit (Overwrite collection geojson_to_upload)) (\<lambda>_.
     and_then (lift (manager_overwrite env collection geojson_to_upload)) (\<lambda>_.
     emit (Print ''Done.''))))))"

text \<open>The module's names that can be called with a portal item and a file path. The
  module defines \<open>sign_in_to_gis\<close>, \<open>get_portal_item\<close>, \<open>ingest\<close> and
  \<open>replace_flayer\<close>; a name that is neither defined nor built in raises \<open>NameError\<close>
  when it is evaluated.\<close>

definition module_functions :: "string \<rightharpoonup> (env \<Rightarrow> item option \<Rightarrow> string \<Rightarrow> unit action)" where
  "module_functions name = (if name = ''replace_flayer'' then Some replace_flayer else None)"

definition call_global :: "string \<Rightarrow> env \<Rightarrow> item option \<Rightarrow> string \<Rightarrow> unit action" where
  "call_global name env feature_layer geojson_file =
     (case module_functions name of
        None \<Rightarrow> raise (NameError name)
      | Some f \<Rightarrow> f env feature_layer geojson_file)"

text \<open>The body of the \<open>try\<close> block of \<open>__main__\<close>. The arguments of
  \<open>sign_in_to_gis\<close> are evaluated left to right before the call.\<close>

definition main_try :: "env \<Rightarrow> unit action" where
  "main_try env =
     and_then (ret (start_time env)) (\<lambda>start.
     and_then (ingest env) (\<lambda>geojson_file.
     and_then (lift (config_get (config env) ''PORTAL'' ''url'')) (\<lambda>portal_url.
     and_then (lift (config_get (config env) ''PORTAL'' ''username'')) (\<lambda>username.
     and_then (lift (config_get (config env) ''PORTAL'' ''username'')) (\<lambda>account.
     and_then (emit (KeyringGet ''PORTAL'' account)) (\<lambda>_.
     and_then (lift (get_password env ''PORTAL'' account)) (\<lambda>password.
     and_then (sign_in_to_gis env portal_url username password) (\<lambda>portal.
     and_then (lift (config_get (config env) ''PORTAL'' ''item_id'')) (\<lambda>item_id.
     and_then (get_portal_item env portal item_id) (\<lambda>feature_layer.
     and_then (call_global ''replace_feature_layer'' env feature_layer geojson_file) (\<lambda>_.
     and_then (ret (end_time env)) (\<lambda>end_time.
     emit (Log INFO (''Total time: '' @ str_timedelta (end_time - start)) None)))))))))))))"

text \<open>\<open>__main__\<close>: the \<open>try\<close> block with its \<open>except Exception\<close> clause, and the exit
  status of the process: 0 when the script runs to its end, \<open>n\<close> after \<open>sys.exit(n)\<close>,
  1 for an exception that leaves the script.\<close>

definition main :: "env \<Rightarrow> world \<Rightarrow> nat \<times> world" where
  "main env w =
     (case try_except (main_try env)
             (\<lambda>e.
              and_then (emit (Log ERROR ''Unhandled exception occurred'' (Some e))) (\<lambda>_.
              emit (Print (str_exn e @ '' (see log for details)'')))) w of
        (Return _, w') \<Rightarrow> (0, w')
      | (Raise e, w') \<Rightarrow> (1, w')
      | (SysExit n, w') \<Rightarrow> (n, w'))"

section \<open>Concrete runs\<close>

text \<open>The settings and answers of a run in which everything outside the script works:
  the source serves an empty feature collection, the secret store holds \<open>pw1\<close> for
  \<open>svc\<close>, the portal accepts it and has the item \<open>abc123\<close>.\<close>

definition example_config :: config where
  "example_config =
     [''USGS'' \<mapsto> [''url'' \<mapsto> ''https://example/api.geojson''],
      ''PORTAL'' \<mapsto> [''url'' \<mapsto> ''https://org.example.com'', ''username'' \<mapsto> ''svc'',
                     ''item_id'' \<mapsto> ''abc123'']]"

definition feature_collection :: jvalue where
  "feature_collection = JDict [(''type'', JStr ''FeatureCollection''), (''features'', JList [])]"

definition ok_response :: "jvalue \<Rightarrow> string \<Rightarrow> response" where
  "ok_response doc u = \<lparr>status_code = 200, reason = ''OK'', resp_url = u, json = Inr doc\<rparr>"

definition happy_env :: env where
  "happy_env =
     \<lparr>working_dir = ''/gis'', config = example_config, start_time = 0, end_time = 1500000,
      requests_get = (\<lambda>u. Inr (ok_response feature_collection u)),
      get_password = (\<lambda>s a. Inr (if s = ''PORTAL'' \<and> a = ''svc'' then Some ''pw1'' else None)),
      GIS = (\<lambda>u n p. if p = Some ''pw1'' then Inr (Gis 1)
                      else Inl (LibraryError ''Invalid username or password'')),
      content_get = (\<lambda>g i. Inr (if i = ''abc123'' then Some (PortalItem 7) else None)),
      fromitem = (\<lambda>it. case it of Some (PortalItem n) \<Rightarrow> Inr (FeatureLayerCollection n)
                          | None \<Rightarrow> Inl (LibraryError ''no item'')),
      manager_overwrite = (\<lambda>c p. Inr ())\<rparr>"

text \<open>The world when the process starts: nothing observed yet, no dataset file.\<close>

definition w0 :: world where
  "w0 = \<lparr>events = [], files = Map.empty\<rparr>"

text \<open>Variations of that run: the source answers 404 with a page that is not JSON, it
  answers 300 with the document, it answers 200 with a body that is not JSON, it serves the
  document \<open>null\<close>; the secret store has no entry; the portal has no such item; the
  portal accepts any password.\<close>

definition env_404 :: env where
  "env_404 = happy_env\<lparr>requests_get := (\<lambda>u.
     Inr \<lparr>status_code = 404, reason = ''Not Found'', resp_url = u,
          json = Inl (ValueError ''Expecting value: line 1 column 1 (char 0)'')\<rparr>)\<rparr>"

definition env_300 :: env where
  "env_300 = happy_env\<lparr>requests_get := (\<lambda>u.
     Inr \<lparr>status_code = 300, reason = ''Multiple Choices'', resp_url = u,
          json = Inr feature_collection\<rparr>)\<rparr>"



definition env_no_password :: env where
  "env_no_password = happy_env\<lparr>get_password := (\<lambda>s a. Inr None)\<rparr>"

definition env_no_item :: env where
  "env_no_item = happy_env\<lparr>content_get := (\<lambda>g i. Inr None)\<rparr>"

definition env_open_portal :: env where
  "env_open_portal = happy_env\<lparr>GIS := (\<lambda>u n p. Inr (Gis 1))\<rparr>"

section \<open>What is observed of a run\<close>

text \<open>The events that are output (stdout, the log, files), the sign-in at the portal,
  which is where the password is used, and the overwrite of the layer.\<close>

fun is_output :: "event \<Rightarrow> bool" where
  "is_output (Print s) = True"
| "is_output (Log l m e) = True"
| "is_output (FileWrite p t) = True"
| "is_output ev = False"

fun is_sign_in :: "event \<Rightarrow> bool" where
  "is_sign_in (GISConnect u n p) = True"
| "is_sign_in ev = False"

fun is_overwrite :: "event \<Rightarrow> bool" where
  "is_overwrite (FromItem it) = True"
| "is_overwrite (Overwrite c p) = True"
| "is_overwrite ev = False"

definition outputs :: "event list \<Rightarrow> event list" where
  "outputs evs = filter is_output evs"

definition before_sign_in :: "event list \<Rightarrow> event list" where
  "before_sign_in evs = takeWhile (\<lambda>ev. \<not> is_sign_in ev) evs"

text \<open>The events a run adds to those of the world it starts in.\<close>

definition run_events :: "env \<Rightarrow> world \<Rightarrow> event list" where
  "run_events env w = drop (length (events w)) (events (snd (main env w)))"

text \<open>The same surroundings with the secret store answering \<open>p\<close>.\<close>

definition with_password :: "env \<Rightarrow> string option \<Rightarrow> env" where
  "with_password env p = env\<lparr>get_password := (\<lambda>service account. Inr p)\<rparr>"

section \<open>Stepping through the script\<close>

lemma and_then_ret [simp]: "and_then (ret x) f w = f x w"
  by (simp add: and_then_def ret_def)

lemma and_then_emit [simp]: "and_then (emit ev) f w = f () (w\<lparr>events := events w @ [ev]\<rparr>)"
  by (simp add: and_then_def emit_def)

lemma and_then_write_file [simp]:
  "and_then (write_file p t) f w =
     f () (w\<lparr>events := events w @ [FileWrite p t], files := (files w)(p \<mapsto> t)\<rparr>)"
  by (simp add: and_then_def write_file_def)

lemma and_then_lift_Inr [simp]: "and_then (lift (Inr x)) f w = f x w"
  by (simp add: and_then_def lift_def)

lemma and_then_lift_Inl [simp]: "and_then (lift (Inl e)) f w = (Raise e, w)"
  by (simp add: and_then_def lift_def)

lemma and_then_raise [simp]: "and_then (raise e) f w = (Raise e, w)"
  by (simp add: and_then_def raise_def)

lemma and_then_sys_exit [simp]: "and_then (sys_exit n) f w = (SysExit n, w)"
  by (simp add: and_then_def sys_exit_def)

lemma and_then_Return: "m w = (Return x, w') \<Longrightarrow> and_then m f w = f x w'"
  by (simp add: and_then_def)

lemmas action_simps = ret_def raise_def sys_exit_def emit_def lift_def



lemma get_portal_item_cases:
  "get_portal_item env g i w =
     (case content_get env g i of
        Inl e \<Rightarrow> (Raise e, w\<lparr>events := events w @ [ContentGet g i,
                     Log ERROR (''Failed to retrieve portal item: '' @ str_exn e) None]\<rparr>)
      | Inr None \<Rightarrow> (Raise (Exception (''Portal item '' @ i @ '' not found'')),
                     w\<lparr>events := events w @ [ContentGet g i,
                       Log ERROR (''Failed to retrieve portal item: '' @
                                  ''Portal item '' @ i @ '' not found'') None]\<rparr>)
      | Inr (Some it) \<Rightarrow> (Return (Some it), w\<lparr>events := events w @ [ContentGet g i]\<rparr>))"
  by (simp add: get_portal_item_def try_except_def and_then_def action_simps
           split: sum.splits option.splits)

lemma ingest_try_cases:
  "ingest_try env u w =
     (case requests_get env u of
        Inl e \<Rightarrow> Raise e
      | Inr r \<Rightarrow> (case raise_for_status r of
                   Inl e \<Rightarrow> Raise e
                 | Inr _ \<Rightarrow> (case json r of Inl e \<Rightarrow> Raise e | Inr d \<Rightarrow> Return d)),
      w\<lparr>events := events w @ [HttpGet u]\<rparr>)"
  by (simp add: ingest_try_def and_then_def action_simps split: sum.splits)

lemma ingest_Return:
  assumes "config_get (config env) ''USGS'' ''url'' = Inr u"
    and "fst (ingest_try env u w) = Return d"
  shows "ingest env w =
     (Return (geojson_path env),
      w\<lparr>events := events w @ [HttpGet u, Print ''Writing geojson...'',
                               FileWrite (geojson_path env) (json_dumps d), Print ''Done.''],
        files := (files w)(geojson_path env \<mapsto> json_dumps d)\<rparr>)"
proof -
  from assms(2) have "ingest_try env u w = (Return d, w\<lparr>events := events w @ [HttpGet u]\<rparr>)"
    by (simp add: ingest_try_cases split: sum.splits)
  then show ?thesis
    using assms(1) by (simp add: ingest_def try_except_def and_then_Return ret_def)
qed

lemma ingest_Raise:
  assumes "config_get (config env) ''USGS'' ''url'' = Inr u"
    and "fst (ingest_try env u w) = Raise ex"
  shows "ingest env w =
     (if is_RequestException ex
      then (SysExit 1, w\<lparr>events := events w @ [HttpGet u,
              Log ERROR (''Failed to download data: '' @ str_exn ex) None]\<rparr>)
      else (Raise ex, w\<lparr>events := events w @ [HttpGet u]\<rparr>))"
proof -
  from assms(2) have t: "ingest_try env u w = (Raise ex, w\<lparr>events := events w @ [HttpGet u]\<rparr>)"
    by (simp add: ingest_try_cases split: sum.splits)
  have c: "is_ChunkedEncodingError ex \<Longrightarrow> is_RequestException ex"
    by (cases ex) simp_all
  show ?thesis
    using assms(1) c t
    by (auto simp add: ingest_def try_except_def and_then_def action_simps)
qed

lemma ingest_no_url:
  "config_get (config env) ''USGS'' ''url'' = Inl e \<Longrightarrow> ingest env w = (Raise e, w)"
  by (simp add: ingest_def)

lemma ingest_try_not_SysExit: "fst (ingest_try env u w) \<noteq> SysExit n"
  by (simp add: ingest_try_cases split: sum.splits)

lemma main_Raise:
  "main_try env w = (Raise e, w') \<Longrightarrow>
   main env w = (0, w'\<lparr>events := events w' @ [Log ERROR ''Unhandled exception occurred'' (Some e),
                                               Print (str_exn e @ '' (see log for details)'')]\<rparr>)"
  by (simp add: main_def try_except_def and_then_def emit_def)

lemma main_SysExit: "main_try env w = (SysExit n, w') \<Longrightarrow> main env w = (n, w')"
  by (simp add: main_def try_except_def)

lemma call_undefined:
  "call_global ''replace_feature_layer'' env it p w = (Raise (NameError ''replace_feature_layer''), w)"
  by (simp add: call_global_def module_functions_def raise_def)

lemma and_then_lift:
  "and_then (lift r) f w = (case r of Inl e \<Rightarrow> (Raise e, w) | Inr x \<Rightarrow> f x w)"
  by (simp add: and_then_def lift_def split: sum.splits)

lemmas and_then_ingest = and_then_def [where m = "ingest env" for env]
lemmas and_then_sign_in = and_then_def [where m = "sign_in_to_gis env a b c" for env a b c]
lemmas and_then_get_portal_item = and_then_def [where m = "get_portal_item env a b" for env a b]
lemmas and_then_call_global = and_then_def [where m = "call_global n env a b" for n env a b]

lemma main_try_ingest_Raise: "ingest env w = (Raise e, w1) \<Longrightarrow> main_try env w = (Raise e, w1)"
  by (simp add: main_try_def and_then_ingest)

lemma main_try_ingest_SysExit: "ingest env w = (SysExit n, w1) \<Longrightarrow> main_try env w = (SysExit n, w1)"
  by (simp add: main_try_def and_then_ingest)

lemma sign_in_cases:
  "sign_in_to_gis env pu un pw w =
     (case GIS env pu un pw of
        Inl e \<Rightarrow> (Raise e, w\<lparr>events := events w @ [Print (''Signing into '' @ pu @ ''...''),
                                                  GISConnect pu un pw]\<rparr>)
      | Inr g \<Rightarrow> (Return g, w\<lparr>events := events w @ [Print (''Signing into '' @ pu @ ''...''),
                                                  GISConnect pu un pw, Print ''Done.'']\<rparr>))"
  by (simp add: sign_in_to_gis_def ret_def split: sum.splits)

lemma main_try_ingest_Return:
  assumes "ingest env w = (Return p, w1)"
  shows "main_try env w =
     (case config_get (config env) ''PORTAL'' ''url'' of
        Inl e \<Rightarrow> (Raise e, w1)
      | Inr pu \<Rightarrow>
     (case config_get (config env) ''PORTAL'' ''username'' of
        Inl e \<Rightarrow> (Raise e, w1)
      | Inr un \<Rightarrow>
     (case get_password env ''PORTAL'' un of
        Inl e \<Rightarrow> (Raise e, w1\<lparr>events := events w1 @ [KeyringGet ''PORTAL'' un]\<rparr>)
      | Inr pw \<Rightarrow>
     (case GIS env pu un pw of
        Inl e \<Rightarrow> (Raise e, w1\<lparr>events := events w1 @ [KeyringGet ''PORTAL'' un,
                      Print (''Signing into '' @ pu @ ''...''), GISConnect pu un pw]\<rparr>)
      | Inr g \<Rightarrow>
     (case config_get (config env) ''PORTAL'' ''item_id'' of
        Inl e \<Rightarrow> (Raise e, w1\<lparr>events := events w1 @ [KeyringGet ''PORTAL'' un,
                      Print (''Signing into '' @ pu @ ''...''), GISConnect pu un pw,
                      Print ''Done.'']\<rparr>)
      | Inr i \<Rightarrow>
     (case content_get env g i of
        Inl e \<Rightarrow> (Raise e, w1\<lparr>events := events w1 @ [KeyringGet ''PORTAL'' un,
                      Print (''Signing into '' @ pu @ ''...''), GISConnect pu un pw,
                      Print ''Done.'', ContentGet g i,
                      Log ERROR (''Failed to retrieve portal item: '' @ str_exn e) None]\<rparr>)
      | Inr None \<Rightarrow> (Raise (Exception (''Portal item '' @ i @ '' not found'')),
                    w1\<lparr>events := events w1 @ [KeyringGet ''PORTAL'' un,
                      Print (''Signing into '' @ pu @ ''...''), GISConnect pu un pw,
                      Print ''Done.'', ContentGet g i,
                      Log ERROR (''Failed to retrieve portal item: '' @
                                 ''Portal item '' @ i @ '' not found'') None]\<rparr>)
      | Inr (Some it) \<Rightarrow> (Raise (NameError ''replace_feature_layer''),
                    w1\<lparr>events := events w1 @ [KeyringGet ''PORTAL'' un,
                      Print (''Signing into '' @ pu @ ''...''), GISConnect pu un pw,
                      Print ''Done.'', ContentGet g i]\<rparr>)))))))"
  using assms
  by (simp add: main_try_def and_then_ingest and_then_sign_in and_then_get_portal_item
        and_then_call_global and_then_lift sign_in_cases get_portal_item_cases call_undefined
        split: sum.splits option.splits)

text \<open>The definitions a concrete run is evaluated with.\<close>

lemmas run_defs = main_def main_try_def ingest_def ingest_try_def sign_in_to_gis_def
  get_portal_item_def call_global_def module_functions_def try_except_def and_then_def
  write_file_def action_simps config_get_def raise_for_status_def geojson_path_def

lemmas example_defs = happy_env_def example_config_def feature_collection_def ok_response_def
  w0_def

lemmas oracle_defs = happy_env_def config_get_def example_config_def ok_response_def
  raise_for_status_def

lemma fetch_Return:
  assumes "requests_get env u = Inr r" and "raise_for_status r = Inr ()" and "json r = Inr d"
  shows "fst (ingest_try env u w) = Return d"
  using assms by (simp add: ingest_try_cases)

lemma fetch_Raise_main:
  assumes "config_get (config env) ''USGS'' ''url'' = Inr u"
    and "fst (ingest_try env u w) = Raise ex"
  shows "main env w =
     (if is_RequestException ex
      then (1, w\<lparr>events := events w @ [HttpGet u,
              Log ERROR (''Failed to download data: '' @ str_exn ex) None]\<rparr>)
      else (0, w\<lparr>events := events w @ [HttpGet u,
              Log ERROR ''Unhandled exception occurred'' (Some ex),
              Print (str_exn ex @ '' (see log for details)'')]\<rparr>))"
proof (cases "is_RequestException ex")
  case True
  with ingest_Raise [OF assms]
  have "ingest env w = (SysExit 1, w\<lparr>events := events w @ [HttpGet u,
              Log ERROR (''Failed to download data: '' @ str_exn ex) None]\<rparr>)"
    by simp
  from main_SysExit [OF main_try_ingest_SysExit [OF this]] True show ?thesis by simp
next
  case False
  with ingest_Raise [OF assms]
  have "ingest env w = (Raise ex, w\<lparr>events := events w @ [HttpGet u]\<rparr>)"
    by simp
  from main_Raise [OF main_try_ingest_Raise [OF this]] False show ?thesis by simp
qed

lemma raise_for_status_error:
  assumes "400 \<le> status_code r" and "status_code r < 600"
  shows "\<exists>m. raise_for_status r = Inl (HTTPError (status_code r) m)"
  using assms by (simp add: raise_for_status_def)

lemma str_nat_404: "str_nat 404 = ''404''"
  by (simp add: str_nat.simps digit_char_def)




lemma with_password_simps:
  "config (with_password env q) = config env"
  "working_dir (with_password env q) = working_dir env"
  "requests_get (with_password env q) = requests_get env"
  "get_password (with_password env q) s a = Inr q"
  "GIS (with_password env q) = GIS env"
  "content_get (with_password env q) = content_get env"
  by (simp_all add: with_password_def)

lemma ingest_try_with_password: "ingest_try (with_password env q) = ingest_try env"
  by (rule ext) (simp add: ingest_try_def with_password_simps)

lemma ingest_with_password: "ingest (with_password env q) = ingest env"
  by (simp add: ingest_def ingest_try_with_password geojson_path_def with_password_simps)

lemma main_ingest_not_Return:
  assumes "ingest env' w = ingest env w" and "\<forall>p. fst (ingest env w) \<noteq> Return p"
  shows "main env' w = main env w"
proof (cases "ingest env w")
  case (Pair r w1)
  with assms(2) show ?thesis
    using assms(1)
    by (cases r) (simp_all add: main_def try_except_def main_try_ingest_Raise
          main_try_ingest_SysExit)
qed

lemma main_try_no_portal_url:
  assumes "ingest env w = (Return p, w1)"
    and "config_get (config env) ''PORTAL'' ''url'' = Inl e"
  shows "main_try env w = (Raise e, w1)"
  using assms(2) by (simp add: main_try_ingest_Return [OF assms(1)])

lemma main_try_no_username:
  assumes "ingest env w = (Return p, w1)"
    and "config_get (config env) ''PORTAL'' ''url'' = Inr pu"
    and "config_get (config env) ''PORTAL'' ''username'' = Inl e"
  shows "main_try env w = (Raise e, w1)"
  using assms(2,3) by (simp add: main_try_ingest_Return [OF assms(1)])

lemma run_with_password:
  assumes "config_get (config env) ''USGS'' ''url'' = Inr u"
    and "fst (ingest_try env u w) = Return d"
    and "config_get (config env) ''PORTAL'' ''url'' = Inr pu"
    and "config_get (config env) ''PORTAL'' ''username'' = Inr un"
  shows "\<exists>T. \<forall>q.
     run_events (with_password env q) w =
       [HttpGet u, Print ''Writing geojson...'',
        FileWrite (geojson_path env) (json_dumps d), Print ''Done.'',
        KeyringGet ''PORTAL'' un, Print (''Signing into '' @ pu @ ''...''),
        GISConnect pu un q] @ T (GIS env pu un q) \<and>
     files (snd (main (with_password env q) w)) = (files w)(geojson_path env \<mapsto> json_dumps d)"
proof -
  define handled where "handled = (\<lambda>e. [Log ERROR ''Unhandled exception occurred'' (Some e),
                                         Print (str_exn e @ '' (see log for details)'')])"
  define T where "T = (\<lambda>r. case r of
      Inl e \<Rightarrow> handled e
    | Inr g \<Rightarrow> Print ''Done.'' #
       (case config_get (config env) ''PORTAL'' ''item_id'' of
          Inl e \<Rightarrow> handled e
        | Inr i \<Rightarrow> ContentGet g i #
           (case content_get env g i of
              Inl e \<Rightarrow> Log ERROR (''Failed to retrieve portal item: '' @ str_exn e) None # handled e
            | Inr None \<Rightarrow>
                Log ERROR (''Failed to retrieve portal item: '' @
                           ''Portal item '' @ i @ '' not found'') None #
                handled (Exception (''Portal item '' @ i @ '' not found''))
            | Inr (Some it) \<Rightarrow> handled (NameError ''replace_feature_layer''))))"
  have "run_events (with_password env q) w =
       [HttpGet u, Print ''Writing geojson...'',
        FileWrite (geojson_path env) (json_dumps d), Print ''Done.'',
        KeyringGet ''PORTAL'' un, Print (''Signing into '' @ pu @ ''...''),
        GISConnect pu un q] @ T (GIS env pu un q) \<and>
     files (snd (main (with_password env q) w)) = (files w)(geojson_path env \<mapsto> json_dumps d)"
    for q
  proof -
    have c: "config_get (config (with_password env q)) ''USGS'' ''url'' = Inr u"
      using assms(1) by (simp add: with_password_simps)
    have t: "fst (ingest_try (with_password env q) u w) = Return d"
      using assms(2) by (simp add: ingest_try_with_password)
    have p: "geojson_path (with_password env q) = geojson_path env"
      by (simp add: geojson_path_def with_password_simps)
    note i = ingest_Return [OF c t]
    show ?thesis
      using assms(3,4)
      by (simp add: run_events_def main_def try_except_def main_try_ingest_Return [OF i]
            with_password_simps p T_def handled_def emit_def
            split: sum.splits option.splits)
  qed
  then show ?thesis by blast
qed

section \<open>The item resolver\<close>

text \<open>
  Claim C10. For every session handle and item identifier, \<open>get_portal_item\<close> never
  returns \<open>None\<close>, whatever its declared \<open>Optional\<close> result: it returns an item or it
  raises.
\<close>

theorem get_portal_item_never_returns_None:
  "(\<exists>it. fst (get_portal_item env g i w) = Return (Some it)) \<or>
   (\<exists>e. fst (get_portal_item env g i w) = Raise e)"
  by (simp add: get_portal_item_cases split: sum.splits option.splits)

text \<open>
  Claim C6. For every run in which the portal returns no item for the configured item
  identifier, \<open>get_portal_item\<close> raises the exception \<open>Portal item ... not found\<close>,
  the exception ends the run (it is logged by the resolver and then by the handler of
  \<open>__main__\<close>, nothing follows), and the overwrite is not attempted.
\<close>

theorem missing_item_is_fatal:
  assumes "config_get (config env) ''USGS'' ''url'' = Inr u"
    and "requests_get env u = Inr r"
    and "raise_for_status r = Inr ()"
    and "json r = Inr d"
    and "config_get (config env) ''PORTAL'' ''url'' = Inr pu"
    and "config_get (config env) ''PORTAL'' ''username'' = Inr un"
    and "get_password env ''PORTAL'' un = Inr pw"
    and "GIS env pu un pw = Inr g"
    and "config_get (config env) ''PORTAL'' ''item_id'' = Inr i"
    and "content_get env g i = Inr None"
  shows "fst (get_portal_item env g i w') = Raise (Exception (''Portal item '' @ i @ '' not found'')) \<and>
         run_events env w =
           [HttpGet u, Print ''Writing geojson...'',
            FileWrite (geojson_path env) (json_dumps d), Print ''Done.'',
            KeyringGet ''PORTAL'' un, Print (''Signing into '' @ pu @ ''...''),
            GISConnect pu un pw, Print ''Done.'', ContentGet g i,
            Log ERROR (''Failed to retrieve portal item: Portal item '' @ i @ '' not found'') None,
            Log ERROR ''Unhandled exception occurred''
              (Some (Exception (''Portal item '' @ i @ '' not found''))),
            Print (''Portal item '' @ i @ '' not found (see log for details)'')] \<and>
         filter is_overwrite (run_events env w) = []"
proof -
  have "fst (ingest_try env u w) = Return d"
    using assms(2-4) by (rule fetch_Return)
  from ingest_Return [OF assms(1) this]
  have "main_try env w =
          (Raise (Exception (''Portal item '' @ i @ '' not found'')),
           w\<lparr>events := events w @
             [HttpGet u, Print ''Writing geojson...'',
              FileWrite (geojson_path env) (json_dumps d), Print ''Done.'',
              KeyringGet ''PORTAL'' un, Print (''Signing into '' @ pu @ ''...''),
              GISConnect pu un pw, Print ''Done.'', ContentGet g i,
              Log ERROR (''Failed to retrieve portal item: Portal item '' @ i @ '' not found'') None],
             files := (files w)(geojson_path env \<mapsto> json_dumps d)\<rparr>)"
    using assms(5-10) by (simp add: main_try_ingest_Return)
  from main_Raise [OF this]
  have run: "run_events env w =
           [HttpGet u, Print ''Writing geojson...'',
            FileWrite (geojson_path env) (json_dumps d), Print ''Done.'',
            KeyringGet ''PORTAL'' un, Print (''Signing into '' @ pu @ ''...''),
            GISConnect pu un pw, Print ''Done.'', ContentGet g i,
            Log ERROR (''Failed to retrieve portal item: Portal item '' @ i @ '' not found'') None,
            Log ERROR ''Unhandled exception occurred''
              (Some (Exception (''Portal item '' @ i @ '' not found''))),
            Print (''Portal item '' @ i @ '' not found (see log for details)'')]"
    by (simp add: run_events_def)
  have "fst (get_portal_item env g i w') = Raise (Exception (''Portal item '' @ i @ '' not found''))"
    using assms(10) by (simp add: get_portal_item_cases)
  with run show ?thesis by simp
qed

theorem missing_item_is_fatal_witness:
  "run_events env_no_item w0 =
     [HttpGet ''https://example/api.geojson'', Print ''Writing geojson...'',
      FileWrite ''/gis/01 Projects and Data/Data/Volcano.geojson'' (json_dumps feature_collection),
      Print ''Done.'', KeyringGet ''PORTAL'' ''svc'',
      Print ''Signing into https://org.example.com...'',
      GISConnect ''https://org.example.com'' ''svc'' (Some ''pw1''), Print ''Done.'',
      ContentGet (Gis 1) ''abc123'',
      Log ERROR ''Failed to retrieve portal item: Portal item abc123 not found'' None,
      Log ERROR ''Unhandled exception occurred'' (Some (Exception ''Portal item abc123 not found'')),
      Print ''Portal item abc123 not found (see log for details)'']"
proof -
  have h1: "config_get (config env_no_item) ''USGS'' ''url'' = Inr ''https://example/api.geojson''"
    and h2: "requests_get env_no_item ''https://example/api.geojson'' =
               Inr (ok_response feature_collection ''https://example/api.geojson'')"
    and h3: "raise_for_status (ok_response feature_collection ''https://example/api.geojson'') = Inr ()"
    and h4: "json (ok_response feature_collection ''https://example/api.geojson'') = Inr feature_collection"
    and h5: "config_get (config env_no_item) ''PORTAL'' ''url'' = Inr ''https://org.example.com''"
    and h6: "config_get (config env_no_item) ''PORTAL'' ''username'' = Inr ''svc''"
    and h7: "get_password env_no_item ''PORTAL'' ''svc'' = Inr (Some ''pw1'')"
    and h8: "GIS env_no_item ''https://org.example.com'' ''svc'' (Some ''pw1'') = Inr (Gis 1)"
    and h9: "config_get (config env_no_item) ''PORTAL'' ''item_id'' = Inr ''abc123''"
    and h10: "content_get env_no_item (Gis 1) ''abc123'' = Inr None"
    by (simp_all add: oracle_defs env_no_item_def)
  have p: "geojson_path env_no_item = ''/gis/01 Projects and Data/Data/Volcano.geojson''"
    by (simp add: geojson_path_def env_no_item_def happy_env_def)
  show ?thesis
    using missing_item_is_fatal [OF h1 h2 h3 h4 h5 h6 h7 h8 h9 h10, of w0 w0]
    by (simp add: p)
qed

section \<open>The data fetcher\<close>



text \<open>
  Claim C5, as the code has it. For every fetch whose response has a status in 400..599,
  \<open>raise_for_status\<close> raises an \<open>HTTPError\<close> carrying that status; \<open>ingest\<close> logs
  \<open>Failed to download data: ...\<close> and calls \<open>sys.exit(1)\<close>: the process ends with
  status 1, and the portal sign-in is never attempted.
\<close>

theorem error_status_exits_before_sign_in:
  assumes "config_get (config env) ''USGS'' ''url'' = Inr u"
    and "requests_get env u = Inr r"
    and "400 \<le> status_code r"
    and "status_code r < 600"
  shows "\<exists>m. fst (ingest_try env u w) = Raise (HTTPError (status_code r) m) \<and>
             main env w =
               (1, w\<lparr>events := events w @
                     [HttpGet u, Log ERROR (''Failed to download data: '' @ m) None]\<rparr>) \<and>
             run_events env w = [HttpGet u, Log ERROR (''Failed to download data: '' @ m) None] \<and>
             filter is_sign_in (run_events env w) = []"
proof -
  from raise_for_status_error [OF assms(3,4)]
  obtain m where m: "raise_for_status r = Inl (HTTPError (status_code r) m)" ..
  with assms(2) have t: "fst (ingest_try env u w) = Raise (HTTPError (status_code r) m)"
    by (simp add: ingest_try_cases)
  from fetch_Raise_main [OF assms(1) t]
  have "main env w =
          (1, w\<lparr>events := events w @
                [HttpGet u, Log ERROR (''Failed to download data: '' @ m) None]\<rparr>)"
    by simp
  with t show ?thesis by (simp add: run_events_def)
qed

theorem error_status_exits_before_sign_in_witness:
  "main env_404 w0 =
     (1, \<lparr>events = [HttpGet ''https://example/api.geojson'',
                    Log ERROR (''Failed to download data: 404 Client Error: Not Found for url: '' @
                               ''https://example/api.geojson'') None],
          files = Map.empty\<rparr>)"
proof -
  have h1: "config_get (config env_404) ''USGS'' ''url'' = Inr ''https://example/api.geojson''"
    and h2: "requests_get env_404 ''https://example/api.geojson'' =
               Inr \<lparr>status_code = 404, reason = ''Not Found'',
                    resp_url = ''https://example/api.geojson'',
                    json = Inl (ValueError ''Expecting value: line 1 column 1 (char 0)'')\<rparr>"
    by (simp_all add: oracle_defs env_404_def)
  have e: "fst (ingest_try env_404 ''https://example/api.geojson'' w0) =
             Raise (HTTPError 404 (''404 Client Error: Not Found for url: '' @
                                   ''https://example/api.geojson''))"
    by (simp add: ingest_try_cases h2 raise_for_status_def str_nat_404)
  show ?thesis
    using error_status_exits_before_sign_in [OF h1 h2, of w0] e
    by (auto simp add: w0_def)
qed

text \<open>
  The claim as stated speaks of every status outside 2xx. A status 300 with a JSON body
  passes \<open>raise_for_status\<close>: the fetch succeeds, the sign-in is attempted, the exit
  status is 0.
\<close>

theorem redirect_status_counterexample:
  "requests_get env_300 ''https://example/api.geojson'' =
     Inr \<lparr>status_code = 300, reason = ''Multiple Choices'',
          resp_url = ''https://example/api.geojson'', json = Inr feature_collection\<rparr> \<and>
   fst (ingest env_300 w0) = Return ''/gis/01 Projects and Data/Data/Volcano.geojson'' \<and>
   fst (main env_300 w0) = 0 \<and>
   filter is_sign_in (run_events env_300 w0) =
     [GISConnect ''https://org.example.com'' ''svc'' (Some ''pw1'')]"
  by (simp add: run_events_def run_defs env_300_def example_defs)







section \<open>The run as a whole\<close>




text \<open>
  Claim C3, as the code has it. For every run in which the fetch succeeds, the portal
  settings are present and the secret store has no entry for (\<open>PORTAL\<close>, username), the
  lookup raises nothing: its \<open>None\<close> is passed on as the password, the script prints
  \<open>Signing into ...\<close> and calls \<open>GIS(url, username, None)\<close>. When that call raises, its
  exception is the one the run ends with.
\<close>

theorem missing_password_is_passed_to_sign_in:
  assumes "config_get (config env) ''USGS'' ''url'' = Inr u"
    and "requests_get env u = Inr r"
    and "raise_for_status r = Inr ()"
    and "json r = Inr d"
    and "config_get (config env) ''PORTAL'' ''url'' = Inr pu"
    and "config_get (config env) ''PORTAL'' ''username'' = Inr un"
    and "get_password env ''PORTAL'' un = Inr None"
  shows "\<exists>rest.
           run_events env w =
             [HttpGet u, Print ''Writing geojson...'',
              FileWrite (geojson_path env) (json_dumps d), Print ''Done.'',
              KeyringGet ''PORTAL'' un, Print (''Signing into '' @ pu @ ''...''),
              GISConnect pu un None] @ rest \<and>
           (\<forall>e. GIS env pu un None = Inl e \<longrightarrow>
              rest = [Log ERROR ''Unhandled exception occurred'' (Some e),
                      Print (str_exn e @ '' (see log for details)'')])"
proof -
  have "fst (ingest_try env u w) = Return d"
    using assms(2-4) by (rule fetch_Return)
  note i = ingest_Return [OF assms(1) this]
  have "\<exists>e more. fst (main_try env w) = Raise e \<and>
          events (snd (main_try env w)) = events w @
             [HttpGet u, Print ''Writing geojson...'',
              FileWrite (geojson_path env) (json_dumps d), Print ''Done.'',
              KeyringGet ''PORTAL'' un, Print (''Signing into '' @ pu @ ''...''),
              GISConnect pu un None] @ more \<and>
          (\<forall>e'. GIS env pu un None = Inl e' \<longrightarrow> more = [] \<and> e = e')"
    using assms(5-7)
    by (simp add: main_try_ingest_Return [OF i] split: sum.splits option.splits)
  then obtain e more where m: "fst (main_try env w) = Raise e"
    and ev: "events (snd (main_try env w)) = events w @
             [HttpGet u, Print ''Writing geojson...'',
              FileWrite (geojson_path env) (json_dumps d), Print ''Done.'',
              KeyringGet ''PORTAL'' un, Print (''Signing into '' @ pu @ ''...''),
              GISConnect pu un None] @ more"
    and g: "\<forall>e'. GIS env pu un None = Inl e' \<longrightarrow> more = [] \<and> e = e'"
    by blast
  from m have "main_try env w = (Raise e, snd (main_try env w))"
    by (metis prod.collapse)
  from main_Raise [OF this] ev g show ?thesis
    by (simp add: run_events_def)
qed

theorem missing_password_is_passed_to_sign_in_witness:
  "run_events env_no_password w0 =
     [HttpGet ''https://example/api.geojson'', Print ''Writing geojson...'',
      FileWrite ''/gis/01 Projects and Data/Data/Volcano.geojson'' (json_dumps feature_collection),
      Print ''Done.'', KeyringGet ''PORTAL'' ''svc'',
      Print ''Signing into https://org.example.com...'',
      GISConnect ''https://org.example.com'' ''svc'' None,
      Log ERROR ''Unhandled exception occurred''
        (Some (LibraryError ''Invalid username or password'')),
      Print ''Invalid username or password (see log for details)'']"
proof -
  have h1: "config_get (config env_no_password) ''USGS'' ''url'' = Inr ''https://example/api.geojson''"
    and h2: "requests_get env_no_password ''https://example/api.geojson'' =
               Inr (ok_response feature_collection ''https://example/api.geojson'')"
    and h3: "raise_for_status (ok_response feature_collection ''https://example/api.geojson'') = Inr ()"
    and h4: "json (ok_response feature_collection ''https://example/api.geojson'') = Inr feature_collection"
    and h5: "config_get (config env_no_password) ''PORTAL'' ''url'' = Inr ''https://org.example.com''"
    and h6: "config_get (config env_no_password) ''PORTAL'' ''username'' = Inr ''svc''"
    and h7: "get_password env_no_password ''PORTAL'' ''svc'' = Inr None"
    by (simp_all add: oracle_defs env_no_password_def)
  have g: "GIS env_no_password ''https://org.example.com'' ''svc'' None =
             Inl (LibraryError ''Invalid username or password'')"
    by (simp add: env_no_password_def happy_env_def)
  have p: "geojson_path env_no_password = ''/gis/01 Projects and Data/Data/Volcano.geojson''"
    by (simp add: geojson_path_def env_no_password_def happy_env_def)
  show ?thesis
    using missing_password_is_passed_to_sign_in [OF h1 h2 h3 h4 h5 h6 h7, of w0]
    by (auto simp add: g p)
qed

text \<open>
  The claim as stated has the run fail at the lookup, before the portal is contacted. With
  no entry in the secret store the sign-in is still attempted, and the run ends with the
  portal library's exception.
\<close>

theorem missing_password_counterexample:
  "get_password env_no_password ''PORTAL'' ''svc'' = Inr None \<and>
   main env_no_password w0 =
     (0, \<lparr>events =
       [HttpGet ''https://example/api.geojson'', Print ''Writing geojson...'',
        FileWrite ''/gis/01 Projects and Data/Data/Volcano.geojson'' (json_dumps feature_collection),
        Print ''Done.'', KeyringGet ''PORTAL'' ''svc'',
        Print ''Signing into https://org.example.com...'',
        GISConnect ''https://org.example.com'' ''svc'' None,
        Log ERROR ''Unhandled exception occurred''
          (Some (LibraryError ''Invalid username or password'')),
        Print ''Invalid username or password (see log for details)''],
       files = [''/gis/01 Projects and Data/Data/Volcano.geojson'' \<mapsto>
                  json_dumps feature_collection]\<rparr>)"
  by (simp add: run_defs env_no_password_def example_defs)

text \<open>
  Claim C8. The password goes nowhere but into the sign-in call. Take two runs that differ
  only in the password the secret store returns: what they print, log and write to files
  before the sign-in is the same; the files they leave are the same; and when the portal
  answers the sign-in alike for both passwords, all they print, log and write is the same.
\<close>

theorem password_does_not_reach_output:
  "outputs (before_sign_in (run_events (with_password env p1) w)) =
   outputs (before_sign_in (run_events (with_password env p2) w)) \<and>
   files (snd (main (with_password env p1) w)) = files (snd (main (with_password env p2) w)) \<and>
   ((\<forall>u n. GIS env u n p1 = GIS env u n p2) \<longrightarrow>
      outputs (run_events (with_password env p1) w) =
      outputs (run_events (with_password env p2) w))"
proof -
  let ?e1 = "with_password env p1" and ?e2 = "with_password env p2"
  have same: ?thesis if "main ?e1 w = main ?e2 w"
    using that by (simp add: run_events_def)
  have early: ?thesis if "\<forall>p. fst (ingest env w) \<noteq> Return p"
  proof -
    have "main ?e1 w = main env w"
      by (rule main_ingest_not_Return) (simp_all add: ingest_with_password that)
    moreover have "main ?e2 w = main env w"
      by (rule main_ingest_not_Return) (simp_all add: ingest_with_password that)
    ultimately have "main ?e1 w = main ?e2 w" by simp
    then show ?thesis by (rule same)
  qed
  show ?thesis
  proof (cases "config_get (config env) ''USGS'' ''url''")
    case (Inl e)
    from ingest_no_url [OF this] have "\<forall>p. fst (ingest env w) \<noteq> Return p" by simp
    then show ?thesis by (rule early)
  next
    case u: (Inr u)
    show ?thesis
    proof (cases "fst (ingest_try env u w)")
      case (Raise ex)
      from ingest_Raise [OF u this] have "\<forall>p. fst (ingest env w) \<noteq> Return p"
        by (simp split: if_splits)
      then show ?thesis by (rule early)
    next
      case (SysExit n)
      with ingest_try_not_SysExit show ?thesis by blast
    next
      case d: (Return d)
      note i = ingest_Return [OF u d]
      have i': "ingest (with_password env q) w = ingest env w" for q
        by (simp add: ingest_with_password)
      show ?thesis
      proof (cases "config_get (config env) ''PORTAL'' ''url''")
        case (Inl e)
        have "main_try (with_password env q) w = main_try env w" for q
          using main_try_no_portal_url [OF i Inl]
            main_try_no_portal_url [of "with_password env q" w, OF i' [of q, unfolded i]]
          by (simp add: Inl with_password_simps)
        then have "main ?e1 w = main ?e2 w"
          by (simp add: main_def try_except_def)
        then show ?thesis by (rule same)
      next
        case pu: (Inr pu)
        show ?thesis
        proof (cases "config_get (config env) ''PORTAL'' ''username''")
          case (Inl e)
          have "main_try (with_password env q) w = main_try env w" for q
            using main_try_no_username [OF i pu Inl]
              main_try_no_username [of "with_password env q" w, OF i' [of q, unfolded i]]
            by (simp add: pu Inl with_password_simps)
          then have "main ?e1 w = main ?e2 w"
            by (simp add: main_def try_except_def)
          then show ?thesis by (rule same)
        next
          case un: (Inr un)
          from run_with_password [OF u d pu un]
          obtain T where T: "\<And>q. run_events (with_password env q) w =
              [HttpGet u, Print ''Writing geojson...'',
               FileWrite (geojson_path env) (json_dumps d), Print ''Done.'',
               KeyringGet ''PORTAL'' un, Print (''Signing into '' @ pu @ ''...''),
               GISConnect pu un q] @ T (GIS env pu un q)"
            and F: "\<And>q. files (snd (main (with_password env q) w)) =
                      (files w)(geojson_path env \<mapsto> json_dumps d)"
            by blast
          show ?thesis
            by (simp add: T F before_sign_in_def outputs_def)
        qed
      qed
    qed
  qed
qed

theorem password_does_not_reach_output_witness:
  "outputs (run_events (with_password env_open_portal (Some ''pw1'')) w0) =
   outputs (run_events (with_password env_open_portal (Some ''hunter2'')) w0) \<and>
   outputs (run_events (with_password env_open_portal (Some ''pw1'')) w0) =
     [Print ''Writing geojson...'',
      FileWrite ''/gis/01 Projects and Data/Data/Volcano.geojson'' (json_dumps feature_collection),
      Print ''Done.'', Print ''Signing into https://org.example.com...'', Print ''Done.'',
      Log ERROR ''Unhandled exception occurred'' (Some (NameError ''replace_feature_layer'')),
      Print (''name '' @ [CHR 0x27] @ ''replace_feature_layer'' @ [CHR 0x27] @
             '' is not defined (see log for details)'')]"
proof -
  have g: "\<forall>u n. GIS env_open_portal u n (Some ''pw1'') = GIS env_open_portal u n (Some ''hunter2'')"
    by (simp add: env_open_portal_def happy_env_def)
  have r: "outputs (run_events (with_password env_open_portal (Some ''pw1'')) w0) =
     [Print ''Writing geojson...'',
      FileWrite ''/gis/01 Projects and Data/Data/Volcano.geojson'' (json_dumps feature_collection),
      Print ''Done.'', Print ''Signing into https://org.example.com...'', Print ''Done.'',
      Log ERROR ''Unhandled exception occurred'' (Some (NameError ''replace_feature_layer'')),
      Print (''name '' @ [CHR 0x27] @ ''replace_feature_layer'' @ [CHR 0x27] @
             '' is not defined (see log for details)'')]"
    by (simp add: outputs_def run_events_def with_password_def run_defs env_open_portal_def
          example_defs)
  show ?thesis
    using password_does_not_reach_output
            [of env_open_portal "Some ''pw1''" w0 "Some ''hunter2''"] g r
    by simp
qed

text \<open>
  Claim C2. The happy path: the source serves the feature collection, the secret store
  returns \<open>pw1\<close>, the portal authenticates and resolves \<open>abc123\<close>. The script then
  evaluates the name \<open>replace_feature_layer\<close>, which the module does not define:
  \<open>NameError\<close> is raised, \<open>replace_flayer\<close> is never called, the log receives the
  exception and no elapsed time. The file does hold the document, and the exit status is 0.
\<close>

theorem happy_path_ends_in_NameError:
  "main happy_env w0 =
     (0, \<lparr>events =
            [HttpGet ''https://example/api.geojson'', Print ''Writing geojson...'',
             FileWrite ''/gis/01 Projects and Data/Data/Volcano.geojson''
               (json_dumps feature_collection),
             Print ''Done.'', KeyringGet ''PORTAL'' ''svc'',
             Print ''Signing into https://org.example.com...'',
             GISConnect ''https://org.example.com'' ''svc'' (Some ''pw1''), Print ''Done.'',
             ContentGet (Gis 1) ''abc123'',
             Log ERROR ''Unhandled exception occurred'' (Some (NameError ''replace_feature_layer'')),
             Print (''name '' @ [CHR 0x27] @ ''replace_feature_layer'' @ [CHR 0x27] @
                    '' is not defined (see log for details)'')],
          files = [''/gis/01 Projects and Data/Data/Volcano.geojson'' \<mapsto>
                     json_dumps feature_collection]\<rparr>)"
  by (simp add: run_defs example_defs)

end
